theory Spec2Isabelle
  imports Complex_Main
begin

section \<open>Data model\<close>

text \<open>
  The program works on pandas data frames. A cell of a frame is a float (with the IEEE
  values infinity and NaN, NaN being pandas' marker of a missing value), a string, a
  \<open>datetime.date\<close> object or the missing date \<open>NaT\<close>. Integer cells are read as the
  float of the same value: the program only compares them with the bounds 90 and 180.
\<close>

datatype pyfloat = Fin real | PInf | MInf | FNaN

datatype date = YMD (year: int) (month: nat) (day: nat)

datatype cell = Num pyfloat | Str string | Date date | NaT

abbreviation NaN :: cell where "NaN \<equiv> Num FNaN"

datatype error = KeyError string | ValueError string | AttributeError string | ParserError string

text \<open>
  A row is a labelled series: column label to cell. A frame has its column labels, in
  order, and its rows, each under its index label (\<open>read_csv\<close> numbers them from 0).
  A row is only ever read at a label of \<open>columns\<close>; \<open>df[c]\<close> at any other label
  raises \<open>KeyError\<close>, and \<open>row.get(c)\<close> returns the default there.
\<close>

type_synonym row = "string \<Rightarrow> cell"

record dataframe =
  columns :: "string list"
  rows :: "(nat \<times> row) list"

text \<open>
  The functions of pandas and Python that parse and print values are not part of the
  program. They are parameters of the model: what \<open>pd.to_numeric\<close> and \<open>float\<close>
  make of a string, how \<open>str\<close> prints a finite number and a date, and what
  \<open>pd.to_datetime\<close> makes of a series that holds strings or numbers. The last one
  works on the series as a whole: it reads every element in the format it inferred from
  the series, so \<open>to_datetime_in s v\<close> is what becomes of the element \<open>v\<close> of the
  series \<open>s\<close> (\<open>None\<close> is NaT, which \<open>errors="coerce"\<close> makes of an element that
  does not parse); and \<open>to_datetime_obj s\<close> says that the result is a series of
  objects, not of datetimes, as pandas 2.2 returns it for strings with different UTC
  offsets.
\<close>

record pylib =
  to_numeric_str :: "string \<Rightarrow> pyfloat"
  to_datetime_obj :: "cell list \<Rightarrow> bool"
  to_datetime_in :: "cell list \<Rightarrow> cell \<Rightarrow> date option"
  float_str :: "string \<Rightarrow> pyfloat option"
  str_real :: "real \<Rightarrow> string"
  str_date :: "date \<Rightarrow> string"

section \<open>Library operations on cells and series\<close>

text \<open>\<open>pd.isna\<close> on a scalar; \<open>None\<close> (a label the row does not have) is missing too.\<close>

fun isna :: "cell option \<Rightarrow> bool" where
  "isna None = True"
| "isna (Some (Num FNaN)) = True"
| "isna (Some NaT) = True"
| "isna (Some _) = False"

text \<open>\<open>pd.to_numeric(s, errors="coerce")\<close>, on one cell.\<close>

fun to_numeric :: "pylib \<Rightarrow> cell \<Rightarrow> cell" where
  "to_numeric L (Num x) = Num x"
| "to_numeric L (Str s) = Num (to_numeric_str L s)"
| "to_numeric L (Date d) = NaN"
| "to_numeric L NaT = NaN"

text \<open>
  \<open>pd.to_datetime(s, errors="coerce")\<close> on a series. A series of \<open>date\<close> objects
  and NaT, as \<open>.dt.date\<close> returns it, is converted element by element; any other
  series is left to the library. The result is a series of datetimes (\<open>None\<close> is NaT)
  or a series of objects. A datetime of pandas counts nanoseconds in 64 bits, so a
  series of datetimes holds the days from 1677-09-22 to 2262-04-11 only, and
  \<open>errors="coerce"\<close> makes NaT of a date outside.
\<close>

fun date_cell :: "cell \<Rightarrow> bool" where
  "date_cell (Date d) = True"
| "date_cell NaT = True"
| "date_cell _ = False"

fun date_of :: "cell \<Rightarrow> date option" where
  "date_of (Date d) = Some d"
| "date_of _ = None"

definition date_leq :: "date \<Rightarrow> date \<Rightarrow> bool" where
  "date_leq a b =
     (year a < year b \<or>
      (year a = year b \<and> (month a < month b \<or> (month a = month b \<and> day a \<le> day b))))"

definition in_bounds :: "date \<Rightarrow> bool" where
  "in_bounds d = (date_leq (YMD 1677 9 22) d \<and> date_leq d (YMD 2262 4 11))"

definition timestamp :: "date option \<Rightarrow> date option" where
  "timestamp t = (case t of None \<Rightarrow> None | Some d \<Rightarrow> if in_bounds d then Some d else None)"

datatype series_dt = Datetimes "date option list" | Objects

definition to_datetime :: "pylib \<Rightarrow> cell list \<Rightarrow> series_dt" where
  "to_datetime L s =
     (if list_all date_cell s then Datetimes (map (\<lambda>v. timestamp (date_of v)) s)
      else if to_datetime_obj L s then Objects
      else Datetimes (map (\<lambda>v. timestamp (to_datetime_in L s v)) s))"

text \<open>The accessor \<open>.dt\<close>: it raises on a series that does not hold datetimes.\<close>

definition dt_error :: error where
  "dt_error = AttributeError ''Can only use .dt accessor with datetimelike values''"

definition dt :: "series_dt \<Rightarrow> error + date option list" where
  "dt sd = (case sd of Datetimes ts \<Rightarrow> Inr ts | Objects \<Rightarrow> Inl dt_error)"

text \<open>\<open>.dt.date\<close> and \<open>.dt.year\<close> on one element of a datetime series.\<close>

definition dt_date :: "date option \<Rightarrow> cell" where
  "dt_date t = (case t of None \<Rightarrow> NaT | Some d \<Rightarrow> Date d)"

definition dt_year :: "date option \<Rightarrow> int option" where
  "dt_year t = map_option year t"

text \<open>\<open>str(x)\<close> and \<open>astype(str)\<close> on one cell.\<close>

fun py_str :: "pylib \<Rightarrow> cell \<Rightarrow> string" where
  "py_str L (Str s) = s"
| "py_str L (Num FNaN) = ''nan''"
| "py_str L (Num PInf) = ''inf''"
| "py_str L (Num MInf) = ''-inf''"
| "py_str L (Num (Fin x)) = str_real L x"
| "py_str L (Date d) = str_date L d"
| "py_str L NaT = ''NaT''"

text \<open>\<open>float(x)\<close>; \<open>None\<close> when it raises.\<close>

fun py_float :: "pylib \<Rightarrow> cell \<Rightarrow> pyfloat option" where
  "py_float L (Num x) = Some x"
| "py_float L (Str s) = float_str L s"
| "py_float L (Date d) = None"
| "py_float L NaT = None"

text \<open>The comparison \<open>a <= b\<close> of floats: false as soon as one side is NaN.\<close>

fun fle :: "pyfloat \<Rightarrow> pyfloat \<Rightarrow> bool" where
  "fle FNaN _ = False"
| "fle _ FNaN = False"
| "fle MInf _ = True"
| "fle _ PInf = True"
| "fle (Fin a) (Fin b) = (a \<le> b)"
| "fle _ _ = False"

text \<open>An exception ends the function that raised it: the rest runs on a result only.\<close>

definition raising :: "error + 'a \<Rightarrow> ('a \<Rightarrow> error + 'b) \<Rightarrow> error + 'b" where
  "raising m f = (case m of Inl e \<Rightarrow> Inl e | Inr x \<Rightarrow> f x)"

text \<open>\<open>df[c]\<close>: the column as a series, or \<open>KeyError\<close>.\<close>

definition getcol :: "dataframe \<Rightarrow> string \<Rightarrow> error + cell list" where
  "getcol df c =
     (if c \<in> set (columns df) then Inr (map (\<lambda>(i, r). r c) (rows df))
      else Inl (KeyError c))"

text \<open>\<open>df[c] = s\<close> for a series \<open>s\<close> on the index of \<open>df\<close>: a new label goes last.\<close>

definition setcol :: "dataframe \<Rightarrow> string \<Rightarrow> cell list \<Rightarrow> dataframe" where
  "setcol df c s =
     \<lparr>columns = (if c \<in> set (columns df) then columns df else columns df @ [c]),
      rows = map (\<lambda>((i, r), v). (i, r(c := v))) (zip (rows df) s)\<rparr>"

text \<open>\<open>df[mask]\<close> for a boolean series on the index of \<open>df\<close>.\<close>

definition select_mask :: "dataframe \<Rightarrow> bool list \<Rightarrow> dataframe" where
  "select_mask df bs =
     \<lparr>columns = columns df, rows = map fst (filter snd (zip (rows df) bs))\<rparr>"

text \<open>\<open>s.isin(values)\<close> on a series of strings.\<close>

definition isin :: "string list \<Rightarrow> string list \<Rightarrow> bool list" where
  "isin s vals = map (\<lambda>x. x \<in> set vals) s"

section \<open>CaseService\<close>

subsection \<open>normalize\<close>

definition coerce_date :: "pylib \<Rightarrow> cell list \<Rightarrow> error + cell list" where
  "coerce_date L s = raising (dt (to_datetime L s)) (\<lambda>ts. Inr (map dt_date ts))"

definition normalize :: "pylib \<Rightarrow> dataframe \<Rightarrow> error + dataframe" where
  "normalize L df =
     raising (getcol df ''latitude'') (\<lambda>lat.
       let df1 = setcol df ''latitude'' (map (to_numeric L) lat) in
     raising (getcol df1 ''longitude'') (\<lambda>lon.
       let df2 = setcol df1 ''longitude'' (map (to_numeric L) lon) in
     raising (getcol df2 ''est_deaths'') (\<lambda>dea.
       let df3 = setcol df2 ''est_deaths'' (map (to_numeric L) dea) in
     raising (getcol df3 ''start_date'') (\<lambda>sta.
     raising (coerce_date L sta) (\<lambda>sta'.
       let df4 = setcol df3 ''start_date'' sta' in
     raising (getcol df4 ''last_verified'') (\<lambda>ver.
     raising (coerce_date L ver) (\<lambda>ver'.
       Inr (setcol df4 ''last_verified'' ver'))))))))"

subsection \<open>quality_issues\<close>

text \<open>\<open>row.get(c)\<close>: \<open>None\<close> at a label the frame does not have.\<close>

definition row_get :: "string list \<Rightarrow> row \<Rightarrow> string \<Rightarrow> cell option" where
  "row_get cols r c = (if c \<in> set cols then Some (r c) else None)"

text \<open>
  \<open>str.strip()\<close> removes the characters Python counts as whitespace from both ends;
  among the code points below 256 these are 9 to 13, 28 to 32, 133 and 160.
\<close>

definition is_space :: "char \<Rightarrow> bool" where
  "is_space c = (of_char c \<in> {9, 10, 11, 12, 13, 28, 29, 30, 31, 32, 133, 160 :: nat})"

definition py_strip :: "string \<Rightarrow> string" where
  "py_strip s = rev (dropWhile is_space (rev (dropWhile is_space s)))"

text \<open>\<open>sep.join(xs)\<close>.\<close>

fun join :: "string \<Rightarrow> string list \<Rightarrow> string" where
  "join sep [] = []"
| "join sep [x] = x"
| "join sep (x # y # ys) = x @ sep @ join sep (y # ys)"

text \<open>
  The coordinate check of one row. In \<open>-90 <= float(lat) <= 90 and -180 <= float(lon) <= 180\<close>
  the longitude is converted only when the latitude is in range; a conversion that
  raises is caught by the \<open>except\<close> branch.
\<close>

definition latlon_msgs :: "pylib \<Rightarrow> cell option \<Rightarrow> cell option \<Rightarrow> string list" where
  "latlon_msgs L lat lon =
     (if isna lat \<or> isna lon then [''lat/lon missing or invalid'']
      else
        (case py_float L (the lat) of
           None \<Rightarrow> [''lat/lon invalid type'']
         | Some a \<Rightarrow>
             if fle (Fin (- 90)) a \<and> fle a (Fin 90) then
               (case py_float L (the lon) of
                  None \<Rightarrow> [''lat/lon invalid type'']
                | Some b \<Rightarrow>
                    if fle (Fin (- 180)) b \<and> fle b (Fin 180) then []
                    else [''lat/lon out of range''])
             else [''lat/lon out of range'']))"

definition sources_msgs :: "pylib \<Rightarrow> cell option \<Rightarrow> string list" where
  "sources_msgs L src =
     (if py_strip (py_str L (case src of None \<Rightarrow> Str [] | Some v \<Rightarrow> v)) = []
      then [''missing sources''] else [])"

definition row_msgs :: "pylib \<Rightarrow> string list \<Rightarrow> row \<Rightarrow> string list" where
  "row_msgs L cols r =
     latlon_msgs L (row_get cols r ''latitude'') (row_get cols r ''longitude'')
     @ sources_msgs L (row_get cols r ''sources'')"

text \<open>The loop over \<open>df.iterrows()\<close>, with the list \<open>problems\<close> it appends to.\<close>

fun quality_loop ::
  "pylib \<Rightarrow> string list \<Rightarrow> (nat \<times> row) list \<Rightarrow> (nat \<times> string) list \<Rightarrow> (nat \<times> string) list" where
  "quality_loop L cols [] problems = problems"
| "quality_loop L cols ((idx, r) # rest) problems =
     (let msgs = row_msgs L cols r
      in quality_loop L cols rest
           (if msgs \<noteq> [] then problems @ [(idx, join ''; '' msgs)] else problems))"

definition quality_issues :: "pylib \<Rightarrow> dataframe \<Rightarrow> (nat \<times> string) list" where
  "quality_issues L df = quality_loop L (columns df) (rows df) []"

subsection \<open>filter\<close>

text \<open>
  The comparisons \<open>sd.dt.year >= year_min\<close> and \<open>sd.dt.year <= year_max\<close>: the year
  of NaT is NaN, and a comparison with NaN is false.
\<close>

definition year_ge :: "int option \<Rightarrow> int \<Rightarrow> bool" where
  "year_ge y b = (case y of None \<Rightarrow> False | Some v \<Rightarrow> b \<le> v)"

definition year_le :: "int option \<Rightarrow> int \<Rightarrow> bool" where
  "year_le y b = (case y of None \<Rightarrow> False | Some v \<Rightarrow> v \<le> b)"

definition filter_df ::
  "pylib \<Rightarrow> dataframe \<Rightarrow> string list \<Rightarrow> string list \<Rightarrow> int \<Rightarrow> int \<Rightarrow> error + dataframe" where
  "filter_df L df regions statuses year_min year_max =
     raising
       (if regions \<noteq> [] then
          raising (getcol df ''region'') (\<lambda>s.
            Inr (select_mask df (isin (map (py_str L) s) regions)))
        else Inr df) (\<lambda>fdf1.
     raising
       (if statuses \<noteq> [] then
          raising (getcol fdf1 ''status'') (\<lambda>s.
            Inr (select_mask fdf1 (isin (map (py_str L) s) statuses)))
        else Inr fdf1) (\<lambda>fdf2.
     raising (getcol fdf2 ''start_date'') (\<lambda>s.
       let sd = to_datetime L s in
     raising (dt sd) (\<lambda>ts.
       let mask_year = map (\<lambda>t. year_ge (dt_year t) year_min \<and> year_le (dt_year t) year_max) ts
       in Inr (select_mask fdf2 mask_year)))))"

subsection \<open>table_display\<close>

text \<open>\<open>df[labels]\<close> for a list of labels: the frame with these columns only.\<close>

definition project :: "dataframe \<Rightarrow> string list \<Rightarrow> error + dataframe" where
  "project df keep =
     (case filter (\<lambda>c. c \<notin> set (columns df)) keep of
        [] \<Rightarrow> Inr \<lparr>columns = keep,
                   rows = map (\<lambda>(i, r). (i, \<lambda>c. if c \<in> set keep then r c else NaN)) (rows df)\<rparr>
      | c # _ \<Rightarrow> Inl (KeyError c))"

definition table_display :: "dataframe \<Rightarrow> error + dataframe" where
  "table_display df =
     (let cols = [''id'', ''name'', ''country'', ''region'', ''status'', ''targeted_group'',
                  ''perpetrators'', ''start_date'', ''last_verified'', ''est_deaths''];
          have = filter (\<lambda>c. c \<in> set (columns df)) cols
      in project df have)"

section \<open>MapBuilder.minimal_map_df\<close>

text \<open>\<open>df.dropna(subset=labels)\<close>: the rows with no missing value under these labels.\<close>

definition dropna :: "dataframe \<Rightarrow> string list \<Rightarrow> error + dataframe" where
  "dropna df labels =
     (case filter (\<lambda>c. c \<notin> set (columns df)) labels of
        [] \<Rightarrow> Inr (select_mask df
                 (map (\<lambda>(i, r). \<not> list_ex (\<lambda>c. isna (Some (r c))) labels) (rows df)))
      | c # _ \<Rightarrow> Inl (KeyError c))"

definition minimal_map_df :: "pylib \<Rightarrow> dataframe \<Rightarrow> error + dataframe" where
  "minimal_map_df L df =
     (let cols = [''longitude'', ''latitude'', ''color'', ''tooltip'', ''name''];
          keep = filter (\<lambda>c. c \<in> set (columns df)) cols
      in raising (project df keep) (\<lambda>m.
         raising (getcol m ''longitude'') (\<lambda>lon.
           let m1 = setcol m ''longitude'' (map (to_numeric L) lon) in
         raising (getcol m1 ''latitude'') (\<lambda>lat.
           let m2 = setcol m1 ''latitude'' (map (to_numeric L) lat) in
         dropna m2 [''longitude'', ''latitude'']))))"

section \<open>CSVRepository\<close>

definition REQUIRED_COLS :: "string list" where
  "REQUIRED_COLS =
     [''id'', ''name'', ''country'', ''region'', ''latitude'', ''longitude'',
      ''start_date'', ''status'', ''perpetrators'', ''targeted_group'',
      ''est_deaths'', ''last_verified'', ''sources'', ''summary'']"

definition PREFERRED_PATH :: string where
  "PREFERRED_PATH = ''data/genocides.csv''"

definition FALLBACK_PATH :: string where
  "FALLBACK_PATH = ''genocides.csv''"

text \<open>
  The file system and the CSV reader are outside the program: which paths exist, and
  what \<open>pd.read_csv\<close> returns or raises for a path.
\<close>

record env =
  path_exists :: "string \<Rightarrow> bool"
  read_csv :: "string \<Rightarrow> error + dataframe"

record CSVRepository =
  preferred :: string
  fallback :: string

definition repo_path :: "env \<Rightarrow> CSVRepository \<Rightarrow> string option" where
  "repo_path E self =
     (if path_exists E (preferred self) then Some (preferred self)
      else if path_exists E (fallback self) then Some (fallback self)
      else None)"

text \<open>
  \<open>str.lower()\<close>: among the code points below 256 the capital letters are 65 to 90 and
  192 to 222 without 215, and the small letter is 32 further.
\<close>

definition is_upper :: "char \<Rightarrow> bool" where
  "is_upper c =
     ((65 \<le> (of_char c :: nat) \<and> (of_char c :: nat) \<le> 90) \<or>
      (192 \<le> (of_char c :: nat) \<and> (of_char c :: nat) \<le> 222 \<and> (of_char c :: nat) \<noteq> 215))"

definition py_lower :: "string \<Rightarrow> string" where
  "py_lower s = map (\<lambda>c. if is_upper c then char_of (of_char c + 32 :: nat) else c) s"

text \<open>\<open>df.columns = [f(c) for c in df.columns]\<close>: a row is read under the new labels.\<close>

definition rename_columns :: "(string \<Rightarrow> string) \<Rightarrow> dataframe \<Rightarrow> dataframe" where
  "rename_columns f df =
     \<lparr>columns = map f (columns df),
      rows = map (\<lambda>(i, r). (i, \<lambda>c'. case find (\<lambda>c. f c = c') (columns df) of
                                        None \<Rightarrow> NaN | Some c \<Rightarrow> r c)) (rows df)\<rparr>"

definition load :: "env \<Rightarrow> CSVRepository \<Rightarrow> error + dataframe option" where
  "load E self =
     (case repo_path E self of
        None \<Rightarrow> Inr None
      | Some path \<Rightarrow>
          raising (read_csv E path) (\<lambda>df.
            Inr (Some (rename_columns (\<lambda>c. py_lower (py_strip c)) df))))"

definition validate :: "dataframe \<Rightarrow> string list" where
  "validate df = filter (\<lambda>c. c \<notin> set (columns df)) REQUIRED_COLS"

section \<open>The application script\<close>

text \<open>
  The script loads the CSV and stops with a message when there is none or when columns
  are missing; an exception nothing catches ends the run.
\<close>

datatype stage = Info string | Missing_columns "string list" | Loaded dataframe

definition load_stage :: "env \<Rightarrow> error + stage" where
  "load_stage E =
     (let db = \<lparr>preferred = PREFERRED_PATH, fallback = FALLBACK_PATH\<rparr> in
      raising (load E db) (\<lambda>df.
        case df of
          None \<Rightarrow> Inr (Info ''No CSV found yet. Use the sidebar to create a sample, or add your own CSV and rerun.'')
        | Some df \<Rightarrow>
            (let missing = validate df
             in if missing \<noteq> [] then Inr (Missing_columns missing) else Inr (Loaded df))))"

text \<open>\<open>df.empty\<close>: an axis has length 0.\<close>

definition df_empty :: "dataframe \<Rightarrow> bool" where
  "df_empty df = (rows df = [] \<or> columns df = [])"

text \<open>\<open>s.min()\<close> and \<open>s.max()\<close> skip the missing values; of none they are NaN.\<close>

fun series_min :: "int option list \<Rightarrow> int option" where
  "series_min [] = None"
| "series_min (None # ys) = series_min ys"
| "series_min (Some y # ys) = (case series_min ys of None \<Rightarrow> Some y | Some m \<Rightarrow> Some (min y m))"

fun series_max :: "int option list \<Rightarrow> int option" where
  "series_max [] = None"
| "series_max (None # ys) = series_max ys"
| "series_max (Some y # ys) = (case series_max ys of None \<Rightarrow> Some y | Some m \<Rightarrow> Some (max y m))"

text \<open>\<open>int(x)\<close> of a year or of NaN.\<close>

definition py_int :: "int option \<Rightarrow> error + int" where
  "py_int y = (case y of None \<Rightarrow> Inl (ValueError ''cannot convert float NaN to integer'')
               | Some v \<Rightarrow> Inr v)"

definition yr_min :: "pylib \<Rightarrow> dataframe \<Rightarrow> error + int" where
  "yr_min L df =
     (if \<not> df_empty df then
        raising (getcol df ''start_date'') (\<lambda>s.
        raising (dt (to_datetime L s)) (\<lambda>ts.
          py_int (series_min (map dt_year ts))))
      else Inr 1900)"

definition yr_max :: "pylib \<Rightarrow> dataframe \<Rightarrow> error + int" where
  "yr_max L df =
     (if \<not> df_empty df then
        raising (getcol df ''start_date'') (\<lambda>s.
        raising (dt (to_datetime L s)) (\<lambda>ts.
          py_int (series_max (map dt_year ts))))
      else Inr 2025)"

text \<open>
  View.sidebar_filters: the \<open>min_value\<close> and \<open>max_value\<close> the script passes to
  \<open>st.slider\<close>, which it passes as the default \<open>value\<close> too. What the widget does
  with them is not modelled.
\<close>

definition slider_bounds :: "int \<Rightarrow> int \<Rightarrow> int \<times> int" where
  "slider_bounds lo hi = (max 1900 lo, max hi lo)"

definition year_defaults :: "pylib \<Rightarrow> dataframe \<Rightarrow> error + int \<times> int" where
  "year_defaults L df =
     raising (yr_min L df) (\<lambda>lo.
     raising (yr_max L df) (\<lambda>hi.
       Inr (slider_bounds lo hi)))"

section \<open>Properties stated by the specification\<close>

text \<open>
  A column as \<open>.dt.date\<close> returns it, so a date column of a normalized frame: every
  cell is NaT or a date that a datetime of pandas can hold.
\<close>

fun stamp_cell :: "cell \<Rightarrow> bool" where
  "stamp_cell (Date d) = in_bounds d"
| "stamp_cell NaT = True"
| "stamp_cell _ = False"

definition dates_only :: "dataframe \<Rightarrow> string \<Rightarrow> bool" where
  "dates_only df c = list_all (\<lambda>(i, r). stamp_cell (r c)) (rows df)"

text \<open>
  The three predicates of the filter, in the specification's words, on a row of the
  normalized table, whose start date is a date or absent: the region as a string is one
  of the selected regions or none is selected, the same for the status, and the start
  date has a year within the bounds.
\<close>

definition year_ok :: "int \<Rightarrow> int \<Rightarrow> row \<Rightarrow> bool" where
  "year_ok ymin ymax r =
     (case date_of (r ''start_date'') of
        None \<Rightarrow> False
      | Some d \<Rightarrow> ymin \<le> year d \<and> year d \<le> ymax)"

definition spec_passes ::
  "pylib \<Rightarrow> string list \<Rightarrow> string list \<Rightarrow> int \<Rightarrow> int \<Rightarrow> row \<Rightarrow> bool" where
  "spec_passes L R S ymin ymax r =
     ((R = [] \<or> py_str L (r ''region'') \<in> set R) \<and>
      (S = [] \<or> py_str L (r ''status'') \<in> set S) \<and>
      year_ok ymin ymax r)"

text \<open>
  The five columns normalize assigns, and what it makes of one row of a frame: an element
  of a date column is read as an element of that column.
\<close>

definition column_of :: "dataframe \<Rightarrow> string \<Rightarrow> cell list" where
  "column_of df c = map (\<lambda>(i, r). r c) (rows df)"

definition datetime_like :: "pylib \<Rightarrow> cell list \<Rightarrow> bool" where
  "datetime_like L s = (list_all date_cell s \<or> \<not> to_datetime_obj L s)"

definition to_datetime_elem :: "pylib \<Rightarrow> cell list \<Rightarrow> cell \<Rightarrow> date option" where
  "to_datetime_elem L s v =
     timestamp (if list_all date_cell s then date_of v else to_datetime_in L s v)"

definition norm_cols :: "string list" where
  "norm_cols = [''latitude'', ''longitude'', ''est_deaths'', ''start_date'', ''last_verified'']"

definition norm_row :: "pylib \<Rightarrow> dataframe \<Rightarrow> row \<Rightarrow> row" where
  "norm_row L df r =
     r(''latitude'' := to_numeric L (r ''latitude''),
       ''longitude'' := to_numeric L (r ''longitude''),
       ''est_deaths'' := to_numeric L (r ''est_deaths''),
       ''start_date'' :=
          dt_date (to_datetime_elem L (column_of df ''start_date'') (r ''start_date'')),
       ''last_verified'' :=
          dt_date (to_datetime_elem L (column_of df ''last_verified'') (r ''last_verified'')))"

text \<open>A column of the normalized frame.\<close>

definition normalized_col :: "pylib \<Rightarrow> dataframe \<Rightarrow> string \<Rightarrow> error + cell list" where
  "normalized_col L df c = raising (normalize L df) (\<lambda>d. getcol d c)"

text \<open>
  A row has its coordinates when neither is missing once coerced to a number; this is
  what \<open>minimal_map_df\<close> asks of a row.
\<close>

definition coords_present :: "pylib \<Rightarrow> row \<Rightarrow> bool" where
  "coords_present L r =
     (\<not> isna (Some (to_numeric L (r ''longitude''))) \<and>
      \<not> isna (Some (to_numeric L (r ''latitude''))))"

text \<open>The index labels of the rows of a frame that was returned.\<close>

definition index_of :: "error + dataframe \<Rightarrow> error + nat list" where
  "index_of m = raising m (\<lambda>d. Inr (map fst (rows d)))"







text \<open>The script stopped with a message that is no error.\<close>

definition shows_info :: "error + stage \<Rightarrow> bool" where
  "shows_info x = (case x of Inr (Info msg) \<Rightarrow> True | _ \<Rightarrow> False)"

section \<open>Example data\<close>

text \<open>
  The examples run under one instance of the library parameters. It reads the strings
  that occur in the examples as pandas 2.2 and Python do, in the series of the examples,
  and rejects every other string: the two ISO dates are read in any series, and a series
  that holds the two timestamps with the offsets +01:00 and +02:00 comes back as a series
  of objects. The examples print no number and no date and convert no number to a date.
\<close>

definition example_lib :: pylib where
  "example_lib =
     \<lparr>to_numeric_str =
        (\<lambda>s. if s = ''91'' then Fin 91 else if s = ''10'' then Fin 10 else FNaN),
      to_datetime_obj =
        (\<lambda>s. Str ''2024-01-01T00:00:00+01:00'' \<in> set s \<and>
              Str ''2024-01-01T00:00:00+02:00'' \<in> set s),
      to_datetime_in =
        (\<lambda>s v. if v = Str ''2024-01-01'' then Some (YMD 2024 1 1)
                else if v = Str ''2025-04-20'' then Some (YMD 2025 4 20) else None),
      float_str =
        (\<lambda>s. if s = ''91'' then Some (Fin 91) else if s = ''10'' then Some (Fin 10) else None),
      str_real = (\<lambda>x. ''0.0''),
      str_date = (\<lambda>d. ''2024-01-01'')\<rparr>"

text \<open>
  The two rows of the sample CSV the application offers to write, as \<open>read_csv\<close>
  returns them (the fields the examples do not read are left out: an empty field is NaN).
\<close>

definition blank_row :: row where
  "blank_row = (\<lambda>c. NaN)"

definition row_ex1 :: row where
  "row_ex1 = blank_row
     (''id'' := Str ''EX-001'', ''region'' := Str ''Example Region'',
      ''latitude'' := Num (Fin 34), ''longitude'' := Num (Fin 71.5),
      ''start_date'' := Str ''2024-01-01'', ''status'' := Str ''ongoing'',
      ''sources'' := Str ''https://example.org/report'')"

definition row_ex2 :: row where
  "row_ex2 = blank_row
     (''id'' := Str ''EX-002'', ''region'' := Str ''Asia'',
      ''latitude'' := Num (Fin 35.7), ''longitude'' := Num (Fin 51.3),
      ''start_date'' := Str ''2025-04-20'', ''status'' := Str ''escalating'',
      ''sources'' := Str ''https://ngo.example/briefing'')"

definition sample_df :: dataframe where
  "sample_df = \<lparr>columns = REQUIRED_COLS, rows = [(0, row_ex1), (1, row_ex2)]\<rparr>"

text \<open>The same frame once normalized, and a third row with no start date.\<close>

definition sample_normalized :: dataframe where
  "sample_normalized =
     \<lparr>columns = REQUIRED_COLS,
      rows = [(0, norm_row example_lib sample_df row_ex1),
              (1, norm_row example_lib sample_df row_ex2)]\<rparr>"

definition undated_row :: row where
  "undated_row = blank_row(''id'' := Str ''EX-006'', ''region'' := Str ''Asia'',
                           ''status'' := Str ''ongoing'', ''start_date'' := NaT)"

definition dated_df :: dataframe where
  "dated_df =
     \<lparr>columns = REQUIRED_COLS,
      rows = [(0, norm_row example_lib sample_df row_ex1),
              (1, norm_row example_lib sample_df row_ex2),
              (2, undated_row)]\<rparr>"

text \<open>Two rows whose start dates are timestamps with different UTC offsets.\<close>

definition mixed_offsets_df :: dataframe where
  "mixed_offsets_df =
     \<lparr>columns = REQUIRED_COLS,
      rows = [(0, row_ex1(''start_date'' := Str ''2024-01-01T00:00:00+01:00'')),
              (1, row_ex2(''start_date'' := Str ''2024-01-01T00:00:00+02:00''))]\<rparr>"

text \<open>A row whose name has spaces around it and whose country field is empty.\<close>

definition untrimmed_df :: dataframe where
  "untrimmed_df =
     \<lparr>columns = REQUIRED_COLS,
      rows = [(0, blank_row(''id'' := Str ''EX-003'', ''name'' := Str ''  x ''))]\<rparr>"

text \<open>Scenario A: latitude "91" and longitude "10", read as strings.\<close>

definition scenario_A_row :: row where
  "scenario_A_row =
     blank_row(''id'' := Str ''EX-004'', ''latitude'' := Str ''91'', ''longitude'' := Str ''10'',
               ''sources'' := Str ''https://example.org/a'')"

definition scenario_A_df :: dataframe where
  "scenario_A_df = \<lparr>columns = REQUIRED_COLS, rows = [(0, scenario_A_row)]\<rparr>"

definition scenario_A_normalized :: dataframe where
  "scenario_A_normalized =
     \<lparr>columns = REQUIRED_COLS,
      rows = [(0, norm_row example_lib scenario_A_df scenario_A_row)]\<rparr>"


text \<open>
  Three raw rows: one without issues, one with an empty latitude and sources of two
  spaces (scenario D), one with latitude "91".
\<close>

definition issues_df :: dataframe where
  "issues_df =
     \<lparr>columns = REQUIRED_COLS,
      rows = [(0, row_ex1),
              (1, blank_row(''longitude'' := Num (Fin 10), ''sources'' := Str ''  '')),
              (2, blank_row(''latitude'' := Str ''91'', ''longitude'' := Str ''10'',
                            ''sources'' := Str ''https://example.org/a''))]\<rparr>"

text \<open>A row with good coordinates whose sources field is empty in the CSV, so NaN.\<close>

definition nan_sources_row :: row where
  "nan_sources_row = row_ex1(''sources'' := NaN)"

text \<open>The preferred file exists and the CSV reader raises on it.\<close>

definition bad_env :: env where
  "bad_env = \<lparr>path_exists = (\<lambda>p. p = PREFERRED_PATH),
              read_csv = (\<lambda>p. Inl (ParserError p))\<rparr>"

text \<open>A CSV with the header line only.\<close>

definition empty_df :: dataframe where
  "empty_df = \<lparr>columns = REQUIRED_COLS, rows = []\<rparr>"

section \<open>Series and frames\<close>

lemma mask_filter: "map fst (filter snd (zip xs (map P xs))) = filter P xs"
  by (induction xs) auto

lemma select_mask_rows:
  "select_mask df (map P (rows df)) = \<lparr>columns = columns df, rows = filter P (rows df)\<rparr>"
  by (simp add: select_mask_def mask_filter)

lemma getcol_in:
  "c \<in> set (columns df) \<Longrightarrow> getcol df c = Inr (map (\<lambda>(i, r). r c) (rows df))"
  by (simp add: getcol_def)

lemma raising_KeyError:
  "c \<notin> set (columns df) \<Longrightarrow> raising (getcol df c) k = Inl (KeyError c)"
  by (simp add: raising_def getcol_def)

lemma setcol_map:
  "c \<in> set (columns df) \<Longrightarrow>
   setcol df c (map (\<lambda>(i, r). f (r c)) (rows df)) =
     \<lparr>columns = columns df, rows = map (\<lambda>(i, r). (i, r(c := f (r c)))) (rows df)\<rparr>"
  by (simp add: setcol_def zip_map2 zip_same_conv_map split_def)

text \<open>One assignment \<open>df[c] = f(df[c])\<close>, followed by the rest \<open>k\<close> of the function.\<close>

lemma coerce_step:
  "c \<in> set (columns df) \<Longrightarrow>
   raising (getcol df c) (\<lambda>s. let d = setcol df c (map f s) in k d) =
   k \<lparr>columns = columns df, rows = map (\<lambda>(i, r). (i, r(c := f (r c)))) (rows df)\<rparr>"
  using setcol_map[of c df f]
  by (simp add: raising_def getcol_in comp_def split_def)

lemma num_step:
  "raising (getcol df c) (\<lambda>s. let d = setcol df c (map f s) in k d) =
     (if c \<in> set (columns df)
      then k \<lparr>columns = columns df, rows = map (\<lambda>(i, r). (i, r(c := f (r c)))) (rows df)\<rparr>
      else Inl (KeyError c))"
proof (cases "c \<in> set (columns df)")
  case True
  then show ?thesis using coerce_step[of c df f k] by simp
next
  case False
  then show ?thesis by (simp add: raising_KeyError)
qed

text \<open>The conversion of a series to datetimes, and the \<open>.dt\<close> accessor on it.\<close>

lemma stamp_cell_date: "stamp_cell v \<Longrightarrow> date_cell v \<and> timestamp (date_of v) = date_of v"
  by (cases v) (simp_all add: timestamp_def)

lemma dt_dates_only:
  assumes "list_all (\<lambda>(i, r). stamp_cell (r c)) rs"
  shows "dt (to_datetime L (map (\<lambda>(i, r). r c) rs)) = Inr (map (\<lambda>(i, r). date_of (r c)) rs)"
proof -
  have a: "list_all date_cell (map (\<lambda>(i, r). r c) rs)"
    using assms stamp_cell_date by (auto simp: list_all_iff)
  have "timestamp (date_of (snd x c)) = date_of (snd x c)" if "x \<in> set rs" for x
    using assms stamp_cell_date that by (auto simp: list_all_iff)
  then have b: "map (\<lambda>v. timestamp (date_of v)) (map (\<lambda>(i, r). r c) rs) =
           map (\<lambda>(i, r). date_of (r c)) rs"
    by (simp add: comp_def split_def)
  have "to_datetime L (map (\<lambda>(i, r). r c) rs) = Datetimes (map (\<lambda>(i, r). date_of (r c)) rs)"
    by (simp only: to_datetime_def a if_True b)
  then show ?thesis by (simp add: dt_def)
qed

lemma dt_to_datetime:
  "dt (to_datetime L s) =
     (if datetime_like L s then Inr (map (to_datetime_elem L s) s) else Inl dt_error)"
  by (auto simp: dt_def to_datetime_def datetime_like_def to_datetime_elem_def)

lemma coerce_date_eq:
  "coerce_date L s =
     (if datetime_like L s then Inr (map (\<lambda>v. dt_date (to_datetime_elem L s v)) s)
      else Inl dt_error)"
  by (simp add: coerce_date_def dt_to_datetime raising_def comp_def)

lemma date_step:
  "raising (getcol df c) (\<lambda>s. raising (coerce_date L s) (\<lambda>x. let d = setcol df c x in k d)) =
     (if c \<in> set (columns df) then
        if datetime_like L (column_of df c)
        then k \<lparr>columns = columns df,
                rows = map (\<lambda>(i, r). (i, r(c := dt_date (to_datetime_elem L (column_of df c) (r c)))))
                         (rows df)\<rparr>
        else Inl dt_error
      else Inl (KeyError c))"
proof (cases "c \<in> set (columns df)")
  case False
  then show ?thesis by (simp add: raising_KeyError)
next
  case True
  have g: "getcol df c = Inr (column_of df c)"
    using True by (simp add: getcol_in column_of_def)
  have m: "map (\<lambda>v. dt_date (to_datetime_elem L (column_of df c) v)) (column_of df c) =
           map (\<lambda>(i, r). dt_date (to_datetime_elem L (column_of df c) (r c))) (rows df)"
    by (simp add: column_of_def comp_def split_def)
  show ?thesis
    using True setcol_map[of c df "\<lambda>v. dt_date (to_datetime_elem L (column_of df c) v)"]
    by (simp add: g raising_def coerce_date_eq m)
qed

lemma date_last:
  "raising (getcol df c) (\<lambda>s. raising (coerce_date L s) (\<lambda>x. Inr (setcol df c x))) =
     (if c \<in> set (columns df) then
        if datetime_like L (column_of df c)
        then Inr \<lparr>columns = columns df,
                rows = map (\<lambda>(i, r). (i, r(c := dt_date (to_datetime_elem L (column_of df c) (r c)))))
                         (rows df)\<rparr>
        else Inl dt_error
      else Inl (KeyError c))"
  using date_step[of df c L Inr] by (simp add: Let_def)

section \<open>Normalization\<close>

text \<open>
  normalize raises at the first of its five columns that is missing and at the first
  date column that does not convert to datetimes; otherwise it returns the frame with
  each row normalized.
\<close>

lemma normalize_cases:
  "normalize L df =
     (if ''latitude'' \<notin> set (columns df) then Inl (KeyError ''latitude'')
      else if ''longitude'' \<notin> set (columns df) then Inl (KeyError ''longitude'')
      else if ''est_deaths'' \<notin> set (columns df) then Inl (KeyError ''est_deaths'')
      else if ''start_date'' \<notin> set (columns df) then Inl (KeyError ''start_date'')
      else if \<not> datetime_like L (column_of df ''start_date'') then Inl dt_error
      else if ''last_verified'' \<notin> set (columns df) then Inl (KeyError ''last_verified'')
      else if \<not> datetime_like L (column_of df ''last_verified'') then Inl dt_error
      else Inr \<lparr>columns = columns df,
                rows = map (\<lambda>(i, r). (i, norm_row L df r)) (rows df)\<rparr>)"
  unfolding normalize_def
  apply (simp only: num_step date_step date_last)
  apply (simp add: column_of_def comp_def split_def norm_row_def)
  done

lemma normalize_rows:
  assumes "set norm_cols \<subseteq> set (columns df)"
    and "datetime_like L (column_of df ''start_date'')"
    and "datetime_like L (column_of df ''last_verified'')"
  shows "normalize L df =
           Inr \<lparr>columns = columns df, rows = map (\<lambda>(i, r). (i, norm_row L df r)) (rows df)\<rparr>"
  using assms by (simp add: normalize_cases norm_cols_def)

lemma normalize_Inr:
  assumes "normalize L df = Inr d"
  shows "set norm_cols \<subseteq> set (columns df)"
    and "d = \<lparr>columns = columns df, rows = map (\<lambda>(i, r). (i, norm_row L df r)) (rows df)\<rparr>"
  using assms by (simp_all add: normalize_cases norm_cols_def split: if_splits)

lemma normalize_row_count:
  "normalize L df = Inr d \<Longrightarrow> length (rows d) = length (rows df) \<and> columns d = columns df"
  using normalize_Inr(2)[of L df d] by simp

lemma norm_cols_required: "set norm_cols \<subseteq> set REQUIRED_COLS"
  by (simp add: norm_cols_def REQUIRED_COLS_def)




lemma norm_row_other: "c \<notin> set norm_cols \<Longrightarrow> norm_row L df r c = r c"
  by (simp add: norm_row_def norm_cols_def)


lemma stamp_cell_dt_date: "stamp_cell (dt_date (timestamp t))"
  by (cases t) (simp_all add: dt_date_def timestamp_def)

text \<open>
  More precisely, they hold NaT and dates that a datetime of pandas can hold: this is
  what the filter is given.
\<close>

lemma normalize_dates_only:
  assumes "normalize L df = Inr d"
  shows "dates_only d ''start_date''" and "dates_only d ''last_verified''"
proof -
  have d: "d = \<lparr>columns = columns df, rows = map (\<lambda>(i, r). (i, norm_row L df r)) (rows df)\<rparr>"
    using assms by (rule normalize_Inr(2))
  show "dates_only d ''start_date''" and "dates_only d ''last_verified''"
    by (simp_all add: d dates_only_def list_all_iff norm_row_def to_datetime_elem_def
        stamp_cell_dt_date split_def)
qed


text \<open>
  Claim C4 at a frame with the 14 columns of the schema whose start dates are two
  timestamps with different UTC offsets: \<open>pd.to_datetime\<close> returns a series of
  objects, the accessor \<open>.dt\<close> raises on it, and normalize raises with it.
\<close>

theorem normalize_raises_on_mixed_offsets:
  "set REQUIRED_COLS \<subseteq> set (columns mixed_offsets_df) \<and>
   normalize example_lib mixed_offsets_df =
     Inl (AttributeError ''Can only use .dt accessor with datetimelike values'')"
proof -
  have c: "set REQUIRED_COLS \<subseteq> set (columns mixed_offsets_df)"
    by (simp add: mixed_offsets_df_def)
  have n: "\<not> datetime_like example_lib (column_of mixed_offsets_df ''start_date'')"
    by (simp add: datetime_like_def column_of_def mixed_offsets_df_def example_lib_def)
  have "normalize example_lib mixed_offsets_df = Inl dt_error"
    using c n by (simp add: normalize_cases REQUIRED_COLS_def)
  then show ?thesis using c by (simp add: dt_error_def)
qed

text \<open>
  Claim C5, as the code has it. When normalize returns a frame, every column of it other
  than the five it assigns is the column of the input, cell for cell: a string keeps the
  whitespace around it and a missing value stays missing. (A label the frame does not
  have raises the same \<open>KeyError\<close> before and after.)
\<close>

theorem normalize_other_fields_unchanged:
  assumes "normalize L df = Inr d" and "c \<notin> set norm_cols"
  shows "getcol d c = getcol df c"
  using assms(2) normalize_Inr(2)[OF assms(1)]
  by (simp add: getcol_def split_def comp_def norm_row_other)

lemma sample_columns:
  "''region'' \<in> set (columns sample_df)" "''status'' \<in> set (columns sample_df)"
  "''start_date'' \<in> set (columns sample_df)" "set norm_cols \<subseteq> set (columns sample_df)"
  "set REQUIRED_COLS \<subseteq> set (columns sample_df)"
  by (simp_all add: sample_df_def REQUIRED_COLS_def norm_cols_def)

lemma sample_datetime_like:
  "datetime_like example_lib (column_of sample_df ''start_date'')"
  "datetime_like example_lib (column_of sample_df ''last_verified'')"
  by (simp_all add: datetime_like_def column_of_def sample_df_def example_lib_def
      row_ex1_def row_ex2_def blank_row_def)

lemma sample_normalize: "normalize example_lib sample_df = Inr sample_normalized"
  using normalize_rows[OF sample_columns(4) sample_datetime_like]
  by (simp add: sample_df_def sample_normalized_def)

theorem normalize_other_fields_unchanged_witness:
  "normalize example_lib sample_df = Inr sample_normalized \<and> ''region'' \<notin> set norm_cols \<and>
   getcol sample_normalized ''region'' = Inr [Str ''Example Region'', Str ''Asia'']"
proof -
  have n: "''region'' \<notin> set norm_cols" by (simp add: norm_cols_def)
  have "getcol sample_df ''region'' = Inr [Str ''Example Region'', Str ''Asia'']"
    by (simp add: getcol_def sample_df_def REQUIRED_COLS_def row_ex1_def row_ex2_def)
  then show ?thesis
    using normalize_other_fields_unchanged[OF sample_normalize n] sample_normalize n by simp
qed

lemma untrimmed_columns: "set norm_cols \<subseteq> set (columns untrimmed_df)"
  by (simp add: untrimmed_df_def REQUIRED_COLS_def norm_cols_def)

lemma untrimmed_datetime_like:
  "datetime_like example_lib (column_of untrimmed_df ''start_date'')"
  "datetime_like example_lib (column_of untrimmed_df ''last_verified'')"
  by (simp_all add: datetime_like_def column_of_def untrimmed_df_def example_lib_def
      blank_row_def)

lemma untrimmed_normalized:
  "normalize example_lib untrimmed_df =
     Inr \<lparr>columns = REQUIRED_COLS,
          rows = [(0, norm_row example_lib untrimmed_df
                        (blank_row(''id'' := Str ''EX-003'', ''name'' := Str ''  x '')))]\<rparr>"
  using normalize_rows[OF untrimmed_columns untrimmed_datetime_like]
  by (simp add: untrimmed_df_def)

text \<open>
  Claim C5 as stated fails: after normalize the name \<open>"  x "\<close> still has its spaces,
  which \<open>strip\<close> would remove, and the empty country field is still NaN, not the empty
  string.
\<close>

theorem normalize_keeps_spaces_and_nan:
  "normalized_col example_lib untrimmed_df ''name'' = Inr [Str ''  x ''] \<and>
   py_strip ''  x '' = ''x'' \<and>
   normalized_col example_lib untrimmed_df ''country'' = Inr [NaN]"
proof -
  have a: "normalized_col example_lib untrimmed_df ''name'' = Inr [Str ''  x '']"
    unfolding normalized_col_def untrimmed_normalized
    by (simp add: raising_def getcol_def REQUIRED_COLS_def norm_row_def)
  have b: "py_strip ''  x '' = ''x''"
    by (simp add: py_strip_def is_space_def)
  have c: "normalized_col example_lib untrimmed_df ''country'' = Inr [NaN]"
    unfolding normalized_col_def untrimmed_normalized
    by (simp add: raising_def getcol_def REQUIRED_COLS_def norm_row_def blank_row_def)
  show ?thesis using a b c by simp
qed



section \<open>The filter\<close>

lemma year_mask:
  "(year_ge (dt_year t) a \<and> year_le (dt_year t) b) =
   (case t of None \<Rightarrow> False | Some d \<Rightarrow> a \<le> year d \<and> year d \<le> b)"
  by (simp add: year_ge_def year_le_def dt_year_def split: option.splits)

text \<open>
  The three selections of the filter, one after the other, keep the rows that pass the
  three predicates. A column is read only when its selection is made; the start dates
  are dates or NaT, as normalize leaves them, so that they convert to datetimes as they
  are.
\<close>

lemma filter_df_rows:
  assumes "R \<noteq> [] \<Longrightarrow> ''region'' \<in> set (columns df)"
    and "S \<noteq> [] \<Longrightarrow> ''status'' \<in> set (columns df)"
    and "''start_date'' \<in> set (columns df)"
    and "dates_only df ''start_date''"
  shows "filter_df L df R S ymin ymax =
           Inr \<lparr>columns = columns df,
                rows = filter (\<lambda>(i, r). spec_passes L R S ymin ymax r) (rows df)\<rparr>"
proof -
  let ?PR = "\<lambda>(i::nat, r::row). py_str L (r ''region'') \<in> set R"
  let ?PS = "\<lambda>(i::nat, r::row). py_str L (r ''status'') \<in> set S"
  let ?PY = "\<lambda>(i::nat, r::row). year_ok ymin ymax r"
  define f1 where
    "f1 = (if R \<noteq> [] then \<lparr>columns = columns df, rows = filter ?PR (rows df)\<rparr> else df)"
  define f2 where
    "f2 = (if S \<noteq> [] then \<lparr>columns = columns f1, rows = filter ?PS (rows f1)\<rparr> else f1)"
  have s1: "(if R \<noteq> [] then raising (getcol df ''region'') (\<lambda>s.
            Inr (select_mask df (isin (map (py_str L) s) R))) else Inr df) = Inr f1"
    using assms(1) select_mask_rows[of df ?PR]
    by (simp add: f1_def raising_def getcol_in isin_def comp_def split_def)
  have c1: "columns f1 = columns df" by (simp add: f1_def)
  have s2: "(if S \<noteq> [] then raising (getcol f1 ''status'') (\<lambda>s.
            Inr (select_mask f1 (isin (map (py_str L) s) S))) else Inr f1) = Inr f2"
    using assms(2) c1 select_mask_rows[of f1 ?PS]
    by (simp add: f2_def raising_def getcol_in isin_def comp_def split_def)
  have c2: "columns f2 = columns df" by (simp add: f2_def c1)
  have "set (rows f2) \<subseteq> set (rows df)" by (auto simp: f2_def f1_def)
  then have d2: "list_all (\<lambda>(i, r). stamp_cell (r ''start_date'')) (rows f2)"
    using assms(4) by (auto simp: dates_only_def list_all_iff)
  have t: "dt (to_datetime L (map (\<lambda>(i, r). r ''start_date'') (rows f2))) =
             Inr (map (\<lambda>(i, r). date_of (r ''start_date'')) (rows f2))"
    using d2 by (rule dt_dates_only)
  have s3: "raising (getcol f2 ''start_date'') (\<lambda>s.
       let sd = to_datetime L s in
     raising (dt sd) (\<lambda>ts.
       let mask_year = map (\<lambda>t. year_ge (dt_year t) ymin \<and> year_le (dt_year t) ymax) ts
       in Inr (select_mask f2 mask_year))) =
         Inr \<lparr>columns = columns df, rows = filter ?PY (rows f2)\<rparr>"
    using assms(3) c2 select_mask_rows[of f2 ?PY]
    by (simp add: raising_def getcol_in t[unfolded split_def] comp_def split_def year_mask
        year_ok_def)
  have r: "filter ?PY (rows f2) = filter (\<lambda>(i, r). spec_passes L R S ymin ymax r) (rows df)"
    by (auto simp: f2_def f1_def spec_passes_def split_def intro: filter_cong)
  show ?thesis
    unfolding filter_df_def s1 using s2 s3 r by (simp add: raising_def)
qed

lemma isna_Some: "isna (Some v) = (v = NaN \<or> v = NaT)"
proof (cases v)
  case (Num x)
  then show ?thesis by (cases x) simp_all
qed simp_all

lemma absent_date_fails:
  "isna (Some (r ''start_date'')) \<Longrightarrow> \<not> year_ok ymin ymax r"
  by (auto simp: isna_Some year_ok_def)

text \<open>
  Claim C1. On a normalized frame, one with the columns region, status and start_date
  whose start dates are as normalize returns them (NaT, or a date that a datetime of
  pandas can hold), the filter returns the frame whose rows are exactly
  the input rows that pass the three predicates (region string among the selected regions
  or no region selected, status string among the selected statuses or no status selected,
  year of the start date within the bounds, both included), each once and in the input
  order; and a row with a missing start date passes for no bounds.
\<close>

theorem filter_exact:
  assumes "''region'' \<in> set (columns df)" and "''status'' \<in> set (columns df)"
    and "''start_date'' \<in> set (columns df)" and "dates_only df ''start_date''"
  shows "filter_df L df R S ymin ymax =
           Inr \<lparr>columns = columns df,
                rows = filter (\<lambda>(i, r). spec_passes L R S ymin ymax r) (rows df)\<rparr>
         \<and> (\<forall>r. isna (Some (r ''start_date'')) \<longrightarrow> \<not> spec_passes L R S ymin ymax r)"
proof
  show "filter_df L df R S ymin ymax =
           Inr \<lparr>columns = columns df,
                rows = filter (\<lambda>(i, r). spec_passes L R S ymin ymax r) (rows df)\<rparr>"
    using assms by (intro filter_df_rows) simp_all
  show "\<forall>r. isna (Some (r ''start_date'')) \<longrightarrow> \<not> spec_passes L R S ymin ymax r"
    using absent_date_fails by (simp add: spec_passes_def)
qed

lemma dated_columns:
  "''region'' \<in> set (columns dated_df)" "''status'' \<in> set (columns dated_df)"
  "''start_date'' \<in> set (columns dated_df)"
  by (simp_all add: dated_df_def REQUIRED_COLS_def)

lemma dated_start_dates:
  "norm_row example_lib sample_df row_ex1 ''start_date'' = Date (YMD 2024 1 1)"
  "norm_row example_lib sample_df row_ex2 ''start_date'' = Date (YMD 2025 4 20)"
  "undated_row ''start_date'' = NaT"
  by (simp_all add: norm_row_def to_datetime_elem_def column_of_def sample_df_def
      row_ex1_def row_ex2_def undated_row_def example_lib_def dt_date_def timestamp_def in_bounds_def date_leq_def)

lemma dated_dates_only: "dates_only dated_df ''start_date''"
  by (simp add: dates_only_def dated_df_def dated_start_dates in_bounds_def date_leq_def)

lemma dated_fields:
  "norm_row example_lib sample_df row_ex1 ''region'' = Str ''Example Region''"
  "norm_row example_lib sample_df row_ex2 ''region'' = Str ''Asia''"
  "norm_row example_lib sample_df row_ex1 ''status'' = Str ''ongoing''"
  "norm_row example_lib sample_df row_ex2 ''status'' = Str ''escalating''"
  "undated_row ''region'' = Str ''Asia''" "undated_row ''status'' = Str ''ongoing''"
  by (simp_all add: norm_row_def row_ex1_def row_ex2_def undated_row_def)

lemma dated_passes:
  "\<not> spec_passes example_lib [''Asia''] [''escalating''] 2000 2030
       (norm_row example_lib sample_df row_ex1)"
  "spec_passes example_lib [''Asia''] [''escalating''] 2000 2030
       (norm_row example_lib sample_df row_ex2)"
  by (simp_all add: spec_passes_def year_ok_def dated_fields dated_start_dates)

theorem filter_exact_witness:
  "''region'' \<in> set (columns dated_df) \<and> ''status'' \<in> set (columns dated_df) \<and>
   ''start_date'' \<in> set (columns dated_df) \<and> dates_only dated_df ''start_date'' \<and>
   filter_df example_lib dated_df [''Asia''] [''escalating''] 2000 2030 =
     Inr \<lparr>columns = REQUIRED_COLS, rows = [(1, norm_row example_lib sample_df row_ex2)]\<rparr> \<and>
   isna (Some (undated_row ''start_date'')) \<and>
   \<not> spec_passes example_lib [''Asia''] [''escalating''] 2000 2030 undated_row"
proof -
  have n: "isna (Some (undated_row ''start_date''))" by (simp add: dated_start_dates)
  note t = filter_exact[OF dated_columns dated_dates_only,
      of example_lib "[''Asia'']" "[''escalating'']" 2000 2030]
  from t n have b: "\<not> spec_passes example_lib [''Asia''] [''escalating''] 2000 2030 undated_row"
    by blast
  from t have a: "filter_df example_lib dated_df [''Asia''] [''escalating''] 2000 2030 =
     Inr \<lparr>columns = REQUIRED_COLS, rows = [(1, norm_row example_lib sample_df row_ex2)]\<rparr>"
    using dated_passes b by (simp add: dated_df_def)
  show ?thesis using a b n dated_columns dated_dates_only by simp
qed

text \<open>
  Claim C2. On a normalized frame (with the columns region, status and start_date, the
  start dates as normalize returns them), an empty list of regions puts no condition on the
  region, and an empty list of statuses none on the status. In particular, with no region
  selected, the status ongoing selected and bounds that every row's start year lies
  within, the filter returns exactly the rows whose status is ongoing, whatever their
  region.
\<close>

theorem empty_selection_all_pass:
  assumes "''region'' \<in> set (columns df)" and "''status'' \<in> set (columns df)"
    and "''start_date'' \<in> set (columns df)" and "dates_only df ''start_date''"
  shows "filter_df L df [] S ymin ymax =
           Inr \<lparr>columns = columns df,
                rows = filter (\<lambda>(i, r). (S = [] \<or> py_str L (r ''status'') \<in> set S) \<and>
                                         year_ok ymin ymax r) (rows df)\<rparr>
         \<and> filter_df L df R [] ymin ymax =
           Inr \<lparr>columns = columns df,
                rows = filter (\<lambda>(i, r). (R = [] \<or> py_str L (r ''region'') \<in> set R) \<and>
                                         year_ok ymin ymax r) (rows df)\<rparr>
         \<and> (list_all (\<lambda>(i, r). year_ok ymin ymax r) (rows df) \<longrightarrow>
              filter_df L df [] [''ongoing''] ymin ymax =
                Inr \<lparr>columns = columns df,
                     rows = filter (\<lambda>(i, r). py_str L (r ''status'') = ''ongoing'') (rows df)\<rparr>)"
proof (intro conjI impI)
  show "filter_df L df [] S ymin ymax =
           Inr \<lparr>columns = columns df,
                rows = filter (\<lambda>(i, r). (S = [] \<or> py_str L (r ''status'') \<in> set S) \<and>
                                         year_ok ymin ymax r) (rows df)\<rparr>"
    using assms filter_df_rows[of "[]" df S L ymin ymax] by (simp add: spec_passes_def)
  show "filter_df L df R [] ymin ymax =
           Inr \<lparr>columns = columns df,
                rows = filter (\<lambda>(i, r). (R = [] \<or> py_str L (r ''region'') \<in> set R) \<and>
                                         year_ok ymin ymax r) (rows df)\<rparr>"
    using assms filter_df_rows[of R df "[]" L ymin ymax] by (simp add: spec_passes_def)
  assume all: "list_all (\<lambda>(i, r). year_ok ymin ymax r) (rows df)"
  have "filter (\<lambda>(i, r). spec_passes L [] [''ongoing''] ymin ymax r) (rows df) =
        filter (\<lambda>(i, r). py_str L (r ''status'') = ''ongoing'') (rows df)"
    using all by (intro filter_cong) (auto simp: spec_passes_def list_all_iff)
  then show "filter_df L df [] [''ongoing''] ymin ymax =
                Inr \<lparr>columns = columns df,
                     rows = filter (\<lambda>(i, r). py_str L (r ''status'') = ''ongoing'') (rows df)\<rparr>"
    using assms filter_df_rows[of "[]" df "[''ongoing'']" L ymin ymax] by simp
qed

lemma sample_normalized_columns:
  "''region'' \<in> set (columns sample_normalized)" "''status'' \<in> set (columns sample_normalized)"
  "''start_date'' \<in> set (columns sample_normalized)"
  by (simp_all add: sample_normalized_def REQUIRED_COLS_def)

lemma sample_normalized_dates: "dates_only sample_normalized ''start_date''"
  by (simp add: dates_only_def sample_normalized_def dated_start_dates in_bounds_def date_leq_def)

lemma sample_years:
  "year_ok 1900 2025 (norm_row example_lib sample_df row_ex1)"
  "year_ok 1900 2025 (norm_row example_lib sample_df row_ex2)"
  by (simp_all add: year_ok_def dated_start_dates)

theorem empty_selection_all_pass_witness:
  "''region'' \<in> set (columns sample_normalized) \<and> ''status'' \<in> set (columns sample_normalized) \<and>
   ''start_date'' \<in> set (columns sample_normalized) \<and>
   dates_only sample_normalized ''start_date'' \<and>
   list_all (\<lambda>(i, r). year_ok 1900 2025 r) (rows sample_normalized) \<and>
   filter_df example_lib sample_normalized [] [''ongoing''] 1900 2025 =
     Inr \<lparr>columns = REQUIRED_COLS, rows = [(0, norm_row example_lib sample_df row_ex1)]\<rparr>"
proof -
  have y: "list_all (\<lambda>(i, r). year_ok 1900 2025 r) (rows sample_normalized)"
    using sample_years by (simp add: sample_normalized_def)
  have s: "py_str example_lib (norm_row example_lib sample_df row_ex1 ''status'') = ''ongoing''"
    "py_str example_lib (norm_row example_lib sample_df row_ex2 ''status'') \<noteq> ''ongoing''"
    by (simp_all add: dated_fields)
  have "filter_df example_lib sample_normalized [] [''ongoing''] 1900 2025 =
     Inr \<lparr>columns = REQUIRED_COLS, rows = [(0, norm_row example_lib sample_df row_ex1)]\<rparr>"
    using empty_selection_all_pass[OF sample_normalized_columns sample_normalized_dates,
        of example_lib "[]" 1900 2025 "[]"] y s
    by (simp add: sample_normalized_def)
  then show ?thesis using y sample_normalized_columns sample_normalized_dates by simp
qed

section \<open>Quality issues\<close>








lemma py_strip_nan: "py_strip ''nan'' = ''nan''"
  by (simp add: py_strip_def is_space_def)


















section \<open>Table and map frames\<close>

lemma project_present:
  "set keep \<subseteq> set (columns df) \<Longrightarrow>
   project df keep =
     Inr \<lparr>columns = keep,
          rows = map (\<lambda>(i, r). (i, \<lambda>c. if c \<in> set keep then r c else NaN)) (rows df)\<rparr>"
proof -
  assume "set keep \<subseteq> set (columns df)"
  then have "filter (\<lambda>c. c \<notin> set (columns df)) keep = []"
    by (auto simp: filter_empty_conv)
  then show ?thesis by (simp add: project_def)
qed

lemma table_display_index: "index_of (table_display df) = Inr (map fst (rows df))"
proof -
  let ?cols = "[''id'', ''name'', ''country'', ''region'', ''status'', ''targeted_group'',
                  ''perpetrators'', ''start_date'', ''last_verified'', ''est_deaths'']"
  have "set (filter (\<lambda>c. c \<in> set (columns df)) ?cols) \<subseteq> set (columns df)" by auto
  then have "project df (filter (\<lambda>c. c \<in> set (columns df)) ?cols) =
     Inr \<lparr>columns = filter (\<lambda>c. c \<in> set (columns df)) ?cols,
          rows = map (\<lambda>(i, r). (i, \<lambda>c. if c \<in> set (filter (\<lambda>c. c \<in> set (columns df)) ?cols)
                                         then r c else NaN)) (rows df)\<rparr>"
    by (rule project_present)
  then show ?thesis
    unfolding table_display_def Let_def index_of_def
    by (simp add: raising_def comp_def split_def)
qed

lemma dropna_coords:
  assumes "''longitude'' \<in> set (columns m)" and "''latitude'' \<in> set (columns m)"
  shows "dropna m [''longitude'', ''latitude''] =
           Inr \<lparr>columns = columns m,
                rows = filter (\<lambda>(i, r). \<not> isna (Some (r ''longitude'')) \<and>
                                        \<not> isna (Some (r ''latitude''))) (rows m)\<rparr>"
  using assms select_mask_rows[of m "\<lambda>(i, r). \<not> isna (Some (r ''longitude'')) \<and>
                                        \<not> isna (Some (r ''latitude''))"]
  by (simp add: dropna_def split_def)

lemma minimal_map_df_index:
  assumes "''longitude'' \<in> set (columns df)" and "''latitude'' \<in> set (columns df)"
  shows "index_of (minimal_map_df L df) =
           Inr (map fst (filter (\<lambda>(i, r). coords_present L r) (rows df)))"
proof -
  let ?cols = "[''longitude'', ''latitude'', ''color'', ''tooltip'', ''name'']"
  define keep where "keep = filter (\<lambda>c. c \<in> set (columns df)) ?cols"
  have k: "set keep \<subseteq> set (columns df)" "''longitude'' \<in> set keep" "''latitude'' \<in> set keep"
    using assms by (auto simp: keep_def)
  define m where "m = \<lparr>columns = keep,
          rows = map (\<lambda>(i, r). (i, \<lambda>c. if c \<in> set keep then r c else NaN)) (rows df)\<rparr>"
  define m1 where "m1 = \<lparr>columns = columns m,
     rows = map (\<lambda>(i, r). (i, r(''longitude'' := to_numeric L (r ''longitude'')))) (rows m)\<rparr>"
  define m2 where "m2 = \<lparr>columns = columns m1,
     rows = map (\<lambda>(i, r). (i, r(''latitude'' := to_numeric L (r ''latitude'')))) (rows m1)\<rparr>"
  have p: "project df keep = Inr m" using k(1) by (simp add: project_present m_def)
  have cm: "''longitude'' \<in> set (columns m)" "''latitude'' \<in> set (columns m1)"
    "''longitude'' \<in> set (columns m2)" "''latitude'' \<in> set (columns m2)"
    using k by (simp_all add: m_def m1_def m2_def)
  have "minimal_map_df L df = dropna m2 [''longitude'', ''latitude'']"
    unfolding minimal_map_df_def Let_def keep_def[symmetric] p
    apply (simp only: raising_def sum.case)
    apply (fold raising_def)
    apply (subst coerce_step[unfolded Let_def], rule cm(1))
    apply (fold m1_def)
    apply (subst coerce_step[unfolded Let_def], rule cm(2))
    apply (fold m2_def)
    apply (rule refl)
    done
  also have "\<dots> = Inr \<lparr>columns = columns m2,
                rows = filter (\<lambda>(i, r). \<not> isna (Some (r ''longitude'')) \<and>
                                        \<not> isna (Some (r ''latitude''))) (rows m2)\<rparr>"
    using cm(3,4) by (rule dropna_coords)
  finally have e: "index_of (minimal_map_df L df) =
      Inr (map fst (filter (\<lambda>(i, r). \<not> isna (Some (r ''longitude'')) \<and>
                                        \<not> isna (Some (r ''latitude''))) (rows m2)))"
    by (simp add: index_of_def raising_def)
  have "map fst (filter (\<lambda>(i, r). \<not> isna (Some (r ''longitude'')) \<and>
                                        \<not> isna (Some (r ''latitude''))) (rows m2)) =
        map fst (filter (\<lambda>(i, r). coords_present L r) (rows df))"
    using k(2,3)
    by (simp add: m2_def m1_def m_def filter_map comp_def split_def coords_present_def)
  with e show ?thesis by simp
qed

lemma missing_not_present:
  "isna (Some (r ''latitude'')) \<or> isna (Some (r ''longitude'')) \<Longrightarrow> \<not> coords_present L r"
  by (auto simp: coords_present_def isna_Some)

lemma numbers_present:
  "r ''latitude'' = Num (Fin a) \<Longrightarrow> r ''longitude'' = Num (Fin b) \<Longrightarrow> coords_present L r"
  by (simp add: coords_present_def)

lemma out_of_range_flagged:
  assumes "''latitude'' \<in> set cols" and "''longitude'' \<in> set cols"
    and "r ''latitude'' = Num (Fin a)" and "r ''longitude'' = Num (Fin b)"
    and "\<not> (- 90 \<le> a \<and> a \<le> 90 \<and> - 180 \<le> b \<and> b \<le> 180)"
  shows "''lat/lon out of range'' \<in> set (row_msgs L cols r)"
  using assms by (auto simp: row_msgs_def latlon_msgs_def row_get_def)

text \<open>
  Claim C3, as the code has it. Of a frame with the two coordinate columns, every row
  is in the table frame, and the rows of the map frame are exactly the rows whose
  coordinates are both present once coerced to numbers, in the same order: a row with a
  missing coordinate is in the table and not on the map, and a row whose coordinates are
  finite numbers is in both, also when they are out of range, which is then one of the
  reasons reported for the row.
\<close>

theorem map_drops_missing_coordinates_only:
  assumes "''longitude'' \<in> set (columns df)" and "''latitude'' \<in> set (columns df)"
  shows "index_of (table_display df) = Inr (map fst (rows df)) \<and>
         index_of (minimal_map_df L df) =
           Inr (map fst (filter (\<lambda>(i, r). coords_present L r) (rows df))) \<and>
         (\<forall>r. isna (Some (r ''latitude'')) \<or> isna (Some (r ''longitude'')) \<longrightarrow>
              \<not> coords_present L r) \<and>
         (\<forall>r a b. r ''latitude'' = Num (Fin a) \<and> r ''longitude'' = Num (Fin b) \<longrightarrow>
              coords_present L r \<and>
              (\<not> (- 90 \<le> a \<and> a \<le> 90 \<and> - 180 \<le> b \<and> b \<le> 180) \<longrightarrow>
                 ''lat/lon out of range'' \<in> set (row_msgs L (columns df) r)))"
proof (intro conjI allI impI)
  show "index_of (table_display df) = Inr (map fst (rows df))"
    by (rule table_display_index)
  show "index_of (minimal_map_df L df) =
           Inr (map fst (filter (\<lambda>(i, r). coords_present L r) (rows df)))"
    using assms by (rule minimal_map_df_index)
  show "\<not> coords_present L r"
    if "isna (Some (r ''latitude'')) \<or> isna (Some (r ''longitude''))" for r
    using that by (rule missing_not_present)
  show "coords_present L r"
    if "r ''latitude'' = Num (Fin a) \<and> r ''longitude'' = Num (Fin b)" for r a b
    using that by (simp add: numbers_present)
  show "''lat/lon out of range'' \<in> set (row_msgs L (columns df) r)"
    if "r ''latitude'' = Num (Fin a) \<and> r ''longitude'' = Num (Fin b)"
      and "\<not> (- 90 \<le> a \<and> a \<le> 90 \<and> - 180 \<le> b \<and> b \<le> 180)" for r a b
    using assms that by (intro out_of_range_flagged[where a = a and b = b]) simp_all
qed

lemma issues_coords:
  "''longitude'' \<in> set (columns issues_df)" "''latitude'' \<in> set (columns issues_df)"
  by (simp_all add: issues_df_def REQUIRED_COLS_def)

lemma issues_present:
  "coords_present example_lib row_ex1"
  "\<not> coords_present example_lib (blank_row(''longitude'' := Num (Fin 10), ''sources'' := Str ''  ''))"
  "coords_present example_lib (blank_row(''latitude'' := Str ''91'', ''longitude'' := Str ''10'',
                            ''sources'' := Str ''https://example.org/a''))"
  by (simp_all add: coords_present_def row_ex1_def blank_row_def example_lib_def)

lemma scenario_A_columns:
  "set norm_cols \<subseteq> set (columns scenario_A_df)"
  by (simp add: scenario_A_df_def REQUIRED_COLS_def norm_cols_def)

lemma scenario_A_datetime_like:
  "datetime_like example_lib (column_of scenario_A_df ''start_date'')"
  "datetime_like example_lib (column_of scenario_A_df ''last_verified'')"
  by (simp_all add: datetime_like_def column_of_def scenario_A_df_def scenario_A_row_def
      example_lib_def blank_row_def)

lemma scenario_A_normalize:
  "normalize example_lib scenario_A_df = Inr scenario_A_normalized"
  using normalize_rows[OF scenario_A_columns scenario_A_datetime_like]
  by (simp add: scenario_A_df_def scenario_A_normalized_def)

lemma scenario_A_coords:
  "''longitude'' \<in> set (columns scenario_A_normalized)"
  "''latitude'' \<in> set (columns scenario_A_normalized)"
  by (simp_all add: scenario_A_normalized_def REQUIRED_COLS_def)

lemma scenario_A_values:
  "norm_row example_lib scenario_A_df scenario_A_row ''latitude'' = Num (Fin 91)"
  "norm_row example_lib scenario_A_df scenario_A_row ''longitude'' = Num (Fin 10)"
  by (simp_all add: norm_row_def scenario_A_row_def example_lib_def)

theorem map_drops_missing_coordinates_only_witness:
  "''longitude'' \<in> set (columns issues_df) \<and> ''latitude'' \<in> set (columns issues_df) \<and>
   index_of (table_display issues_df) = Inr [0, 1, 2] \<and>
   index_of (minimal_map_df example_lib issues_df) = Inr [0, 2] \<and>
   isna (Some (blank_row ''latitude'')) \<and> \<not> coords_present example_lib blank_row \<and>
   row_ex1 ''latitude'' = Num (Fin 34) \<and> row_ex1 ''longitude'' = Num (Fin 71.5) \<and>
   coords_present example_lib row_ex1 \<and>
   ''lat/lon out of range'' \<in>
     set (row_msgs example_lib (columns issues_df)
       (norm_row example_lib scenario_A_df scenario_A_row))"
proof -
  note t = map_drops_missing_coordinates_only[OF issues_coords, of example_lib]
  from t have a: "index_of (table_display issues_df) = Inr [0, 1, 2]"
    by (simp add: issues_df_def)
  from t have "index_of (minimal_map_df example_lib issues_df) =
      Inr (map fst (filter (\<lambda>(i, r). coords_present example_lib r) (rows issues_df)))"
    by blast
  then have b: "index_of (minimal_map_df example_lib issues_df) = Inr [0, 2]"
    using issues_present by (simp add: issues_df_def)
  have n: "isna (Some (blank_row ''latitude''))" by (simp add: blank_row_def)
  with t have c: "\<not> coords_present example_lib blank_row" by blast
  have e: "row_ex1 ''latitude'' = Num (Fin 34)" "row_ex1 ''longitude'' = Num (Fin 71.5)"
    by (simp_all add: row_ex1_def)
  with t have d: "coords_present example_lib row_ex1" by blast
  have o: "\<not> (- 90 \<le> (91::real) \<and> (91::real) \<le> 90 \<and> - 180 \<le> (10::real) \<and> (10::real) \<le> 180)"
    by simp
  from t scenario_A_values o have f: "''lat/lon out of range'' \<in>
     set (row_msgs example_lib (columns issues_df)
       (norm_row example_lib scenario_A_df scenario_A_row))"
    by blast
  show ?thesis using issues_coords a b n c e d f by simp
qed

lemma scenario_A_msgs:
  "row_msgs example_lib REQUIRED_COLS (norm_row example_lib scenario_A_df scenario_A_row)
   = [''lat/lon out of range'']"
  by (simp add: row_msgs_def latlon_msgs_def sources_msgs_def row_get_def REQUIRED_COLS_def
      norm_row_def scenario_A_row_def example_lib_def py_strip_def is_space_def)

lemma scenario_A_present:
  "coords_present example_lib (norm_row example_lib scenario_A_df scenario_A_row)"
  by (simp add: coords_present_def norm_row_def scenario_A_row_def example_lib_def)

text \<open>
  Claim C3 as stated fails in scenario A: the row with latitude 91 and longitude 10 is
  reported as "lat/lon out of range" and is in the table, but it is in the map frame too.
\<close>

theorem out_of_range_row_is_mapped:
  "normalize example_lib scenario_A_df = Inr scenario_A_normalized \<and>
   quality_issues example_lib scenario_A_normalized = [(0, ''lat/lon out of range'')] \<and>
   index_of (table_display scenario_A_normalized) = Inr [0] \<and>
   index_of (minimal_map_df example_lib scenario_A_normalized) = Inr [0]"
proof -
  have q: "quality_issues example_lib scenario_A_normalized = [(0, ''lat/lon out of range'')]"
    by (simp add: quality_issues_def scenario_A_normalized_def scenario_A_msgs)
  have t: "index_of (table_display scenario_A_normalized) = Inr [0]"
    by (simp add: table_display_index scenario_A_normalized_def)
  have m: "index_of (minimal_map_df example_lib scenario_A_normalized) = Inr [0]"
    using minimal_map_df_index[OF scenario_A_coords, of example_lib] scenario_A_present
    by (simp add: scenario_A_normalized_def)
  show ?thesis using scenario_A_normalize q t m by simp
qed

section \<open>Loading\<close>

lemma load_raises:
  "repo_path E db = Some p \<Longrightarrow> read_csv E p = Inl e \<Longrightarrow> load E db = Inl e"
  by (simp add: load_def raising_def)

lemma load_None: "(load E db = Inr None) = (repo_path E db = None)"
  by (auto simp: load_def raising_def split: option.splits sum.splits)

lemma shows_info_load_stage:
  "shows_info (load_stage E) =
     (load E \<lparr>preferred = PREFERRED_PATH, fallback = FALLBACK_PATH\<rparr> = Inr None)"
  by (auto simp: load_stage_def shows_info_def raising_def Let_def
      split: sum.splits option.splits)

text \<open>
  Claim C7, as the code has it. When the selected file exists and \<open>read_csv\<close> raises
  on it, \<open>load\<close> raises the same exception, and so does the script, which catches
  nothing; the script shows the message about the missing CSV exactly when neither of the
  two paths exists.
\<close>

theorem unparseable_csv_propagates:
  assumes "repo_path E db = Some p" and "read_csv E p = Inl e"
  shows "load E db = Inl e \<and>
         (db = \<lparr>preferred = PREFERRED_PATH, fallback = FALLBACK_PATH\<rparr> \<longrightarrow>
            load_stage E = Inl e) \<and>
         (shows_info (load_stage E) =
            (\<not> path_exists E PREFERRED_PATH \<and> \<not> path_exists E FALLBACK_PATH))"
proof (intro conjI impI)
  show l: "load E db = Inl e" using assms by (rule load_raises)
  show "load_stage E = Inl e" if "db = \<lparr>preferred = PREFERRED_PATH, fallback = FALLBACK_PATH\<rparr>"
    using l that by (simp add: load_stage_def raising_def)
  show "shows_info (load_stage E) =
            (\<not> path_exists E PREFERRED_PATH \<and> \<not> path_exists E FALLBACK_PATH)"
    by (simp add: shows_info_load_stage load_None repo_path_def)
qed

lemma bad_env_path:
  "repo_path bad_env \<lparr>preferred = PREFERRED_PATH, fallback = FALLBACK_PATH\<rparr> = Some PREFERRED_PATH"
  by (simp add: repo_path_def bad_env_def)

lemma bad_env_read: "read_csv bad_env PREFERRED_PATH = Inl (ParserError PREFERRED_PATH)"
  by (simp add: bad_env_def)

theorem unparseable_csv_propagates_witness:
  "repo_path bad_env \<lparr>preferred = PREFERRED_PATH, fallback = FALLBACK_PATH\<rparr> = Some PREFERRED_PATH \<and>
   read_csv bad_env PREFERRED_PATH = Inl (ParserError PREFERRED_PATH) \<and>
   load bad_env \<lparr>preferred = PREFERRED_PATH, fallback = FALLBACK_PATH\<rparr> =
     Inl (ParserError PREFERRED_PATH) \<and>
   load_stage bad_env = Inl (ParserError PREFERRED_PATH) \<and>
   shows_info (load_stage bad_env) = False"
proof -
  note t = unparseable_csv_propagates[OF bad_env_path bad_env_read]
  from t have l: "load bad_env \<lparr>preferred = PREFERRED_PATH, fallback = FALLBACK_PATH\<rparr> =
     Inl (ParserError PREFERRED_PATH)" by blast
  from t have s: "load_stage bad_env = Inl (ParserError PREFERRED_PATH)" by blast
  have i: "shows_info (load_stage bad_env) = False" by (simp add: s shows_info_def)
  show ?thesis using bad_env_path bad_env_read l s i by blast
qed

text \<open>
  Claim C7 as stated fails: with the preferred file present and unparseable, the script
  ends with the exception of the reader, not with the message about the missing CSV.
\<close>

theorem unparseable_csv_is_not_no_csv:
  "load bad_env \<lparr>preferred = PREFERRED_PATH, fallback = FALLBACK_PATH\<rparr> =
     Inl (ParserError ''data/genocides.csv'') \<and>
   load_stage bad_env = Inl (ParserError ''data/genocides.csv'') \<and>
   \<not> shows_info (load_stage bad_env)"
proof -
  have l: "load bad_env \<lparr>preferred = PREFERRED_PATH, fallback = FALLBACK_PATH\<rparr> =
     Inl (ParserError ''data/genocides.csv'')"
    using load_raises[OF bad_env_path bad_env_read] by (simp add: PREFERRED_PATH_def)
  then have s: "load_stage bad_env = Inl (ParserError ''data/genocides.csv'')"
    by (simp add: load_stage_def raising_def)
  show ?thesis using l s by (simp add: shows_info_def)
qed

section \<open>Year bounds\<close>

text \<open>
  On a normalized frame with rows, whose start dates are not all NaT, the bounds passed
  to the slider are the lowest year, raised to 1900, and the larger of the highest and
  the lowest year.
\<close>

lemma year_defaults_values:
  assumes "rows df \<noteq> []" and "''start_date'' \<in> set (columns df)"
    and "dates_only df ''start_date''"
    and "series_min (map (\<lambda>(i, r). dt_year (date_of (r ''start_date''))) (rows df)) = Some lo"
    and "series_max (map (\<lambda>(i, r). dt_year (date_of (r ''start_date''))) (rows df)) = Some hi"
  shows "year_defaults L df = Inr (max 1900 lo, max hi lo)"
proof -
  have ne: "\<not> df_empty df" using assms(1,2) by (auto simp: df_empty_def)
  have t: "dt (to_datetime L (map (\<lambda>(i, r). r ''start_date'') (rows df))) =
             Inr (map (\<lambda>(i, r). date_of (r ''start_date'')) (rows df))"
    using assms(3)[unfolded dates_only_def] by (rule dt_dates_only)
  have a: "yr_min L df = Inr lo"
    using ne assms(2,4)
    by (simp add: yr_min_def raising_def getcol_in t[unfolded split_def] py_int_def comp_def
        split_def)
  have b: "yr_max L df = Inr hi"
    using ne assms(2,5)
    by (simp add: yr_max_def raising_def getcol_in t[unfolded split_def] py_int_def comp_def
        split_def)
  show ?thesis by (simp add: year_defaults_def a b raising_def slider_bounds_def)
qed

text \<open>
  Claim C9 at an empty table (a CSV with the header line only): the default bounds are
  1900 and the constant 2025, whatever the current year is.
\<close>

theorem year_defaults_empty_table:
  "year_defaults L empty_df = Inr (1900, 2025)"
  by (simp add: year_defaults_def yr_min_def yr_max_def df_empty_def empty_df_def raising_def
      slider_bounds_def)

section \<open>Missing sources\<close>

lemma latlon_msgs_not_sources: "''missing sources'' \<notin> set (latlon_msgs L lat lon)"
  by (simp add: latlon_msgs_def split: option.splits)

text \<open>
  Claim C10. A row whose sources cell is NaN is not reported as "missing sources":
  \<open>str\<close> makes the string "nan" of it, which is not empty once trimmed.
\<close>

theorem nan_sources_not_flagged:
  assumes "''sources'' \<in> set cols" and "r ''sources'' = NaN"
  shows "sources_msgs L (row_get cols r ''sources'') = [] \<and>
         ''missing sources'' \<notin> set (row_msgs L cols r)"
proof -
  have s: "sources_msgs L (row_get cols r ''sources'') = []"
    using assms by (simp add: sources_msgs_def row_get_def py_strip_nan)
  then show ?thesis using latlon_msgs_not_sources by (simp add: row_msgs_def)
qed

theorem nan_sources_not_flagged_witness:
  "''sources'' \<in> set REQUIRED_COLS \<and> nan_sources_row ''sources'' = NaN \<and>
   sources_msgs example_lib (row_get REQUIRED_COLS nan_sources_row ''sources'') = [] \<and>
   ''missing sources'' \<notin> set (row_msgs example_lib REQUIRED_COLS nan_sources_row) \<and>
   quality_issues example_lib \<lparr>columns = REQUIRED_COLS, rows = [(0, nan_sources_row)]\<rparr> = []"
proof -
  have a: "''sources'' \<in> set REQUIRED_COLS" by (simp add: REQUIRED_COLS_def)
  have b: "nan_sources_row ''sources'' = NaN" by (simp add: nan_sources_row_def)
  note t = nan_sources_not_flagged[of REQUIRED_COLS nan_sources_row example_lib, OF a b]
  have l: "latlon_msgs example_lib (row_get REQUIRED_COLS nan_sources_row ''latitude'')
             (row_get REQUIRED_COLS nan_sources_row ''longitude'') = []"
    by (simp add: latlon_msgs_def row_get_def REQUIRED_COLS_def nan_sources_row_def row_ex1_def)
  have "row_msgs example_lib REQUIRED_COLS nan_sources_row = []"
    using t l by (simp add: row_msgs_def)
  then have "quality_issues example_lib \<lparr>columns = REQUIRED_COLS, rows = [(0, nan_sources_row)]\<rparr> = []"
    by (simp add: quality_issues_def)
  then show ?thesis using a b t by simp
qed

end
